theory Spec2Isabelle
  imports Complex_Main
begin

section \<open>Data model\<close>

text \<open>
  The ledger keeps three MongoDB collections behind Mongoose models: accounts,
  transactions and ledger entries. A Mongoose \<open>ObjectId\<close> is a natural number here, a
  JavaScript \<open>number\<close> holding money is an exact rational (the arithmetic of the
  service is \<open>+\<close>, \<open>-\<close> and \<open><\<close> only; rounding of IEEE doubles is outside the model), a
  \<open>Date\<close> is a natural number, and a metadata object is an association list. The
  \<open>createdAt\<close>/\<open>updatedAt\<close> stamps that Mongoose maintains by itself are not part of the
  records; \<open>completedAt\<close>, which the service writes, is.
\<close>

type_synonym oid = nat
type_synonym amount = rat
type_synonym date = nat
type_synonym metadata = "(string \<times> string) list"

datatype AccountType = ASSET | LIABILITY | EQUITY | REVENUE | EXPENSE

datatype AccountStatus = ACTIVE | FROZEN | CLOSED

datatype TransactionType = DEPOSIT | WITHDRAWAL | TRANSFER | FEE | ADJUSTMENT

datatype TransactionStatus = PENDING | COMPLETED | FAILED | CANCELLED

datatype EntryType = DEBIT | CREDIT

record IAccount =
  acc_id :: oid
  acc_userId :: oid
  accountNumber :: string
  acc_name :: string
  acc_type :: AccountType
  acc_currency :: string
  balance :: amount
  availableBalance :: amount
  acc_status :: AccountStatus
  acc_metadata :: metadata

record ITransaction =
  tx_id :: oid
  transactionId :: string
  tx_userId :: oid
  tx_type :: TransactionType
  tx_amount :: amount
  tx_currency :: string
  sourceAccountId :: "oid option"
  destinationAccountId :: "oid option"
  tx_description :: string
  tx_status :: TransactionStatus
  tx_metadata :: metadata
  completedAt :: "date option"

record ILedgerEntry =
  le_transactionId :: oid
  le_accountId :: oid
  le_type :: EntryType
  le_amount :: amount
  le_currency :: string
  le_balance :: amount
  le_description :: string
  le_metadata :: metadata

text \<open>The database: the three collections, each in insertion order.\<close>

record store =
  accounts :: "IAccount list"
  transactions :: "ITransaction list"
  ledgerEntries :: "ILedgerEntry list"

text \<open>
  A thrown JavaScript error. The service throws \<open>new Error(message)\<close> and its callers
  tell the cases apart by the message, so the message is the payload. Mongoose rejects
  a document that fails its schema with a \<open>ValidationError\<close>; every other rejection by
  the store or the driver (lost connection, duplicate key, ...) is \<open>StoreFailure\<close>.
\<close>

datatype error = Error string | ValidationError | StoreFailure

text \<open>
  An awaited call either throws or returns, and in both cases the database is whatever
  the call left behind.
\<close>

type_synonym 'a outcome = "(error + 'a) \<times> store"

definition await :: "'a outcome \<Rightarrow> ('a \<Rightarrow> store \<Rightarrow> 'b outcome) \<Rightarrow> 'b outcome" where
  "await r k = (case r of (Inl e, db) \<Rightarrow> (Inl e, db) | (Inr x, db) \<Rightarrow> k x db)"

text \<open>
  What a call takes from its surroundings: whether the store rejects the \<open>k\<close>-th round
  trip of the call (\<open>fault\<close>), the clock read by \<open>new Date()\<close>, the \<open>_id\<close> Mongoose
  gives the document built with \<open>new\<close>, and the string \<open>uuid()\<close> returns.
\<close>

record env =
  fault :: "nat \<Rightarrow> bool"
  now :: date
  newObjectId :: oid
  uuid :: string

section \<open>Schemas\<close>

text \<open>
  The string setters of the schemas, \<open>uppercase: true\<close> and \<open>trim: true\<close>, on ASCII
  text.
\<close>

definition toUpperCase :: "string \<Rightarrow> string" where
  "toUpperCase s =
     map (\<lambda>c. case map_of (zip ''abcdefghijklmnopqrstuvwxyz'' ''ABCDEFGHIJKLMNOPQRSTUVWXYZ'') c of
                None \<Rightarrow> c | Some u \<Rightarrow> u) s"

definition isSpace :: "char \<Rightarrow> bool" where
  "isSpace c = (c \<in> set [CHR 0x09, CHR 0x0A, CHR 0x0B, CHR 0x0C, CHR 0x0D, CHR '' ''])"

definition trim :: "string \<Rightarrow> string" where
  "trim s = rev (dropWhile isSpace (rev (dropWhile isSpace s)))"

text \<open>
  Validation before an insert. \<open>TransactionSchema\<close>: \<open>transactionId\<close>, \<open>currency\<close> and
  \<open>description\<close> are required strings (Mongoose rejects the empty string), \<open>amount\<close>
  has \<open>min: 0.01\<close>. \<open>LedgerEntrySchema\<close> and \<open>AccountSchema\<close> likewise. The enum and
  \<open>ObjectId\<close> fields hold by typing.
\<close>

definition valid_Transaction :: "ITransaction \<Rightarrow> bool" where
  "valid_Transaction t =
     (transactionId t \<noteq> [] \<and> 1 / 100 \<le> tx_amount t \<and> tx_currency t \<noteq> [] \<and> tx_description t \<noteq> [])"

definition valid_LedgerEntry :: "ILedgerEntry \<Rightarrow> bool" where
  "valid_LedgerEntry e = (1 / 100 \<le> le_amount e \<and> le_currency e \<noteq> [] \<and> le_description e \<noteq> [])"

definition valid_Account :: "IAccount \<Rightarrow> bool" where
  "valid_Account a = (accountNumber a \<noteq> [] \<and> acc_name a \<noteq> [] \<and> acc_currency a \<noteq> [])"

section \<open>Store operations\<close>

text \<open>
  \<open>Model.findOne(filter)\<close>: the first document that matches. The flag says whether
  the store rejects this round trip.
\<close>

definition Account_findOne :: "bool \<Rightarrow> (IAccount \<Rightarrow> bool) \<Rightarrow> store \<Rightarrow> (IAccount option) outcome" where
  "Account_findOne f p db = (if f then (Inl StoreFailure, db) else (Inr (find p (accounts db)), db))"

text \<open>
  \<open>doc.save()\<close> of a document built with \<open>new\<close> validates it and inserts it; the
  collection's unique indexes (\<open>_id\<close>, and \<open>transactionId\<close> or \<open>accountNumber\<close>)
  reject a duplicate.
\<close>

definition Transaction_insert :: "bool \<Rightarrow> ITransaction \<Rightarrow> store \<Rightarrow> unit outcome" where
  "Transaction_insert f t db =
     (if \<not> valid_Transaction t then (Inl ValidationError, db)
      else if f \<or> (\<exists>x \<in> set (transactions db). tx_id x = tx_id t \<or> transactionId x = transactionId t)
        then (Inl StoreFailure, db)
      else (Inr (), db\<lparr>transactions := transactions db @ [t]\<rparr>))"

definition LedgerEntry_insert :: "bool \<Rightarrow> ILedgerEntry \<Rightarrow> store \<Rightarrow> unit outcome" where
  "LedgerEntry_insert f e db =
     (if \<not> valid_LedgerEntry e then (Inl ValidationError, db)
      else if f then (Inl StoreFailure, db)
      else (Inr (), db\<lparr>ledgerEntries := ledgerEntries db @ [e]\<rparr>))"

definition Account_insert :: "bool \<Rightarrow> IAccount \<Rightarrow> store \<Rightarrow> unit outcome" where
  "Account_insert f a db =
     (if \<not> valid_Account a then (Inl ValidationError, db)
      else if f \<or> (\<exists>x \<in> set (accounts db). acc_id x = acc_id a \<or> accountNumber x = accountNumber a)
        then (Inl StoreFailure, db)
      else (Inr (), db\<lparr>accounts := accounts db @ [a]\<rparr>))"

text \<open>
  \<open>doc.save()\<close> of a document that was loaded or already inserted validates it (the
  required paths are checked on every save) and writes the record back under its
  \<open>_id\<close>.
\<close>

definition Account_save :: "bool \<Rightarrow> IAccount \<Rightarrow> store \<Rightarrow> unit outcome" where
  "Account_save f a db =
     (if \<not> valid_Account a then (Inl ValidationError, db)
      else if f then (Inl StoreFailure, db)
      else (Inr (), db\<lparr>accounts := map (\<lambda>x. if acc_id x = acc_id a then a else x) (accounts db)\<rparr>))"

definition Transaction_save :: "bool \<Rightarrow> ITransaction \<Rightarrow> store \<Rightarrow> unit outcome" where
  "Transaction_save f t db =
     (if \<not> valid_Transaction t then (Inl ValidationError, db)
      else if f then (Inl StoreFailure, db)
      else (Inr (), db\<lparr>transactions := map (\<lambda>x. if tx_id x = tx_id t then t else x) (transactions db)\<rparr>))"

text \<open>
  A session with a transaction started on it. Reads and writes made with the session
  work on the session's view of the database; \<open>commitTransaction\<close> publishes that
  view, \<open>abortTransaction\<close> drops it, and the database is again the one the session
  started from. A rejected commit publishes nothing, and a rejected abort throws its
  own error after the view is dropped.
\<close>

record ClientSession =
  started_from :: store

definition startSession :: "bool \<Rightarrow> store \<Rightarrow> ClientSession outcome" where
  "startSession f db = (if f then (Inl StoreFailure, db) else (Inr \<lparr>started_from = db\<rparr>, db))"

definition commitTransaction :: "bool \<Rightarrow> store \<Rightarrow> unit outcome" where
  "commitTransaction f db = (if f then (Inl StoreFailure, db) else (Inr (), db))"

definition abortTransaction :: "bool \<Rightarrow> ClientSession \<Rightarrow> store \<Rightarrow> unit outcome" where
  "abortTransaction f session db =
     (if f then (Inl StoreFailure, started_from session) else (Inr (), started_from session))"

section \<open>TransactionService\<close>

record DepositInput =
  d_userId :: oid
  d_accountId :: oid
  d_amount :: amount
  d_currency :: string
  d_description :: string
  d_metadata :: "metadata option"

record WithdrawalInput =
  w_userId :: oid
  w_accountId :: oid
  w_amount :: amount
  w_currency :: string
  w_description :: string
  w_metadata :: "metadata option"

record TransferInput =
  t_userId :: oid
  t_sourceAccountId :: oid
  t_destinationAccountId :: oid
  t_amount :: amount
  t_currency :: string
  t_description :: string
  t_metadata :: "metadata option"

text \<open>\<open>metadata || {}\<close>\<close>

definition orEmpty :: "metadata option \<Rightarrow> metadata" where
  "orEmpty m = (case m of None \<Rightarrow> [] | Some x \<Rightarrow> x)"

text \<open>\<open>new LedgerEntry({...})\<close> followed by \<open>entry.save({ session })\<close>.\<close>

definition createLedgerEntry ::
  "bool \<Rightarrow> oid \<Rightarrow> oid \<Rightarrow> EntryType \<Rightarrow> amount \<Rightarrow> string \<Rightarrow> amount \<Rightarrow> string \<Rightarrow> store
     \<Rightarrow> ILedgerEntry outcome" where
  "createLedgerEntry f transactionId' accountId type' amount' currency balance' description db =
     (let entry = \<lparr>le_transactionId = transactionId', le_accountId = accountId, le_type = type',
                   le_amount = amount', le_currency = trim (toUpperCase currency),
                   le_balance = balance', le_description = description, le_metadata = []\<rparr>
      in await (LedgerEntry_insert f entry db) (\<lambda>_ db. (Inr entry, db)))"

text \<open>The same without a session.\<close>

definition createLedgerEntryWithoutTransaction ::
  "bool \<Rightarrow> oid \<Rightarrow> oid \<Rightarrow> EntryType \<Rightarrow> amount \<Rightarrow> string \<Rightarrow> amount \<Rightarrow> string \<Rightarrow> store
     \<Rightarrow> ILedgerEntry outcome" where
  "createLedgerEntryWithoutTransaction f transactionId' accountId type' amount' currency balance'
       description db =
     (let entry = \<lparr>le_transactionId = transactionId', le_accountId = accountId, le_type = type',
                   le_amount = amount', le_currency = trim (toUpperCase currency),
                   le_balance = balance', le_description = description, le_metadata = []\<rparr>
      in await (LedgerEntry_insert f entry db) (\<lambda>_ db. (Inr entry, db)))"

text \<open>
  The \<open>try\<close> block of \<open>depositWithTransaction\<close>, running on the session's view. Round
  trips: 1 \<open>findOne\<close>, 2 insert of the transaction, 3 insert of the ledger entry, 4 save
  of the account, 5 save of the transaction, 6 commit.
\<close>

definition depositWithTransaction_try :: "env \<Rightarrow> DepositInput \<Rightarrow> store \<Rightarrow> ITransaction outcome" where
  "depositWithTransaction_try e depositData db0 =
     await (Account_findOne (fault e 1)
              (\<lambda>a. acc_id a = d_accountId depositData \<and> acc_userId a = d_userId depositData) db0)
       (\<lambda>found db.
     case found of
       None \<Rightarrow> (Inl (Error ''Account not found''), db)
     | Some account \<Rightarrow>
     if acc_currency account \<noteq> d_currency depositData then (Inl (Error ''Currency mismatch''), db)
     else
     let transaction =
           \<lparr>tx_id = newObjectId e, transactionId = uuid e, tx_userId = d_userId depositData,
            tx_type = DEPOSIT, tx_amount = d_amount depositData,
            tx_currency = trim (toUpperCase (d_currency depositData)),
            sourceAccountId = None, destinationAccountId = Some (d_accountId depositData),
            tx_description = d_description depositData, tx_status = PENDING,
            tx_metadata = orEmpty (d_metadata depositData), completedAt = None\<rparr>
     in
     await (Transaction_insert (fault e 2) transaction db) (\<lambda>_ db.
     await (createLedgerEntry (fault e 3) (tx_id transaction) (d_accountId depositData) DEBIT
              (d_amount depositData) (d_currency depositData)
              (balance account + d_amount depositData)
              (''Deposit: '' @ d_description depositData) db) (\<lambda>_ db.
     let account = account\<lparr>balance := balance account + d_amount depositData,
                           availableBalance := availableBalance account + d_amount depositData\<rparr>
     in
     await (Account_save (fault e 4) account db) (\<lambda>_ db.
     let transaction = transaction\<lparr>tx_status := COMPLETED, completedAt := Some (now e)\<rparr>
     in
     await (Transaction_save (fault e 5) transaction db) (\<lambda>_ db.
     await (commitTransaction (fault e 6) db) (\<lambda>_ db.
     (Inr transaction, db)))))))"

text \<open>
  \<open>depositWithTransaction\<close>: round trip 0 opens the session (before the \<open>try\<close>); the
  \<open>catch\<close> aborts (round trip 7) and rethrows.
\<close>

definition depositWithTransaction :: "env \<Rightarrow> DepositInput \<Rightarrow> store \<Rightarrow> ITransaction outcome" where
  "depositWithTransaction e depositData db0 =
     await (startSession (fault e 0) db0) (\<lambda>session db.
     case depositWithTransaction_try e depositData db of
       (Inr transaction, db) \<Rightarrow> (Inr transaction, db)
     | (Inl error, db) \<Rightarrow>
         await (abortTransaction (fault e 7) session db) (\<lambda>_ db. (Inl error, db)))"

text \<open>
  \<open>depositWithoutTransaction\<close>: the same sequence straight on the database. Round
  trips: 0 \<open>findOne\<close>, 1 insert of the transaction, 2 insert of the ledger entry, 3 save
  of the account, 4 save of the transaction.
\<close>

definition depositWithoutTransaction :: "env \<Rightarrow> DepositInput \<Rightarrow> store \<Rightarrow> ITransaction outcome" where
  "depositWithoutTransaction e depositData db0 =
     await (Account_findOne (fault e 0)
              (\<lambda>a. acc_id a = d_accountId depositData \<and> acc_userId a = d_userId depositData) db0)
       (\<lambda>found db.
     case found of
       None \<Rightarrow> (Inl (Error ''Account not found''), db)
     | Some account \<Rightarrow>
     if acc_currency account \<noteq> d_currency depositData then (Inl (Error ''Currency mismatch''), db)
     else
     let transaction =
           \<lparr>tx_id = newObjectId e, transactionId = uuid e, tx_userId = d_userId depositData,
            tx_type = DEPOSIT, tx_amount = d_amount depositData,
            tx_currency = trim (toUpperCase (d_currency depositData)),
            sourceAccountId = None, destinationAccountId = Some (d_accountId depositData),
            tx_description = d_description depositData, tx_status = PENDING,
            tx_metadata = orEmpty (d_metadata depositData), completedAt = None\<rparr>
     in
     await (Transaction_insert (fault e 1) transaction db) (\<lambda>_ db.
     await (createLedgerEntryWithoutTransaction (fault e 2) (tx_id transaction)
              (d_accountId depositData) DEBIT (d_amount depositData) (d_currency depositData)
              (balance account + d_amount depositData)
              (''Deposit: '' @ d_description depositData) db) (\<lambda>_ db.
     let account = account\<lparr>balance := balance account + d_amount depositData,
                           availableBalance := availableBalance account + d_amount depositData\<rparr>
     in
     await (Account_save (fault e 3) account db) (\<lambda>_ db.
     let transaction = transaction\<lparr>tx_status := COMPLETED, completedAt := Some (now e)\<rparr>
     in
     await (Transaction_save (fault e 4) transaction db) (\<lambda>_ db.
     (Inr transaction, db))))))"

text \<open>
  \<open>deposit\<close> picks by the module constant \<open>useTransactions\<close>, which every method of
  the service takes here as its first argument.
\<close>

definition deposit :: "bool \<Rightarrow> env \<Rightarrow> DepositInput \<Rightarrow> store \<Rightarrow> ITransaction outcome" where
  "deposit useTransactions e depositData db =
     (if useTransactions then depositWithTransaction e depositData db
      else depositWithoutTransaction e depositData db)"

text \<open>
  \<open>withdraw\<close> opens a session whatever \<open>useTransactions\<close> is. Round trips: 0 opens
  the session, 1 \<open>findOne\<close>, 2 insert of the transaction, 3 insert of the ledger entry,
  4 save of the account, 5 save of the transaction, 6 commit, 7 abort.
\<close>

definition withdraw_try :: "env \<Rightarrow> WithdrawalInput \<Rightarrow> store \<Rightarrow> ITransaction outcome" where
  "withdraw_try e withdrawalData db0 =
     await (Account_findOne (fault e 1)
              (\<lambda>a. acc_id a = w_accountId withdrawalData \<and> acc_userId a = w_userId withdrawalData) db0)
       (\<lambda>found db.
     case found of
       None \<Rightarrow> (Inl (Error ''Account not found''), db)
     | Some account \<Rightarrow>
     if acc_currency account \<noteq> w_currency withdrawalData then (Inl (Error ''Currency mismatch''), db)
     else if availableBalance account < w_amount withdrawalData
       then (Inl (Error ''Insufficient funds''), db)
     else
     let transaction =
           \<lparr>tx_id = newObjectId e, transactionId = uuid e, tx_userId = w_userId withdrawalData,
            tx_type = WITHDRAWAL, tx_amount = w_amount withdrawalData,
            tx_currency = trim (toUpperCase (w_currency withdrawalData)),
            sourceAccountId = Some (w_accountId withdrawalData), destinationAccountId = None,
            tx_description = w_description withdrawalData, tx_status = PENDING,
            tx_metadata = orEmpty (w_metadata withdrawalData), completedAt = None\<rparr>
     in
     await (Transaction_insert (fault e 2) transaction db) (\<lambda>_ db.
     await (createLedgerEntry (fault e 3) (tx_id transaction) (w_accountId withdrawalData) CREDIT
              (w_amount withdrawalData) (w_currency withdrawalData)
              (balance account - w_amount withdrawalData)
              (''Withdrawal: '' @ w_description withdrawalData) db) (\<lambda>_ db.
     let account = account\<lparr>balance := balance account - w_amount withdrawalData,
                           availableBalance := availableBalance account - w_amount withdrawalData\<rparr>
     in
     await (Account_save (fault e 4) account db) (\<lambda>_ db.
     let transaction = transaction\<lparr>tx_status := COMPLETED, completedAt := Some (now e)\<rparr>
     in
     await (Transaction_save (fault e 5) transaction db) (\<lambda>_ db.
     await (commitTransaction (fault e 6) db) (\<lambda>_ db.
     (Inr transaction, db)))))))"

definition withdraw :: "bool \<Rightarrow> env \<Rightarrow> WithdrawalInput \<Rightarrow> store \<Rightarrow> ITransaction outcome" where
  "withdraw useTransactions e withdrawalData db0 =
     await (startSession (fault e 0) db0) (\<lambda>session db.
     case withdraw_try e withdrawalData db of
       (Inr transaction, db) \<Rightarrow> (Inr transaction, db)
     | (Inl error, db) \<Rightarrow>
         await (abortTransaction (fault e 7) session db) (\<lambda>_ db. (Inl error, db)))"

text \<open>
  \<open>transfer\<close>, likewise always in a session. The two accounts are loaded as two
  documents, the source by \<open>_id\<close> and \<open>userId\<close>, the destination by \<open>_id\<close> alone, and
  each is written back from what was loaded. Round trips: 0 opens the session, 1 and 2
  the two \<open>findOne\<close>, 3 insert of the transaction, 4 and 5 the two ledger entries, 6 and
  7 the two account saves, 8 save of the transaction, 9 commit, 10 abort.
\<close>

definition transfer_try :: "env \<Rightarrow> TransferInput \<Rightarrow> store \<Rightarrow> ITransaction outcome" where
  "transfer_try e transferData db0 =
     await (Account_findOne (fault e 1)
              (\<lambda>a. acc_id a = t_sourceAccountId transferData \<and> acc_userId a = t_userId transferData) db0)
       (\<lambda>foundSource db.
     case foundSource of
       None \<Rightarrow> (Inl (Error ''Source account not found''), db)
     | Some sourceAccount \<Rightarrow>
     await (Account_findOne (fault e 2) (\<lambda>a. acc_id a = t_destinationAccountId transferData) db)
       (\<lambda>foundDestination db.
     case foundDestination of
       None \<Rightarrow> (Inl (Error ''Destination account not found''), db)
     | Some destinationAccount \<Rightarrow>
     if acc_currency sourceAccount \<noteq> t_currency transferData
       then (Inl (Error ''Source account currency mismatch''), db)
     else if acc_currency destinationAccount \<noteq> t_currency transferData
       then (Inl (Error ''Destination account currency mismatch''), db)
     else if availableBalance sourceAccount < t_amount transferData
       then (Inl (Error ''Insufficient funds''), db)
     else
     let transaction =
           \<lparr>tx_id = newObjectId e, transactionId = uuid e, tx_userId = t_userId transferData,
            tx_type = TRANSFER, tx_amount = t_amount transferData,
            tx_currency = trim (toUpperCase (t_currency transferData)),
            sourceAccountId = Some (t_sourceAccountId transferData),
            destinationAccountId = Some (t_destinationAccountId transferData),
            tx_description = t_description transferData, tx_status = PENDING,
            tx_metadata = orEmpty (t_metadata transferData), completedAt = None\<rparr>
     in
     await (Transaction_insert (fault e 3) transaction db) (\<lambda>_ db.
     await (createLedgerEntry (fault e 4) (tx_id transaction) (t_sourceAccountId transferData) CREDIT
              (t_amount transferData) (t_currency transferData)
              (balance sourceAccount - t_amount transferData)
              (''Transfer Out: '' @ t_description transferData) db) (\<lambda>_ db.
     await (createLedgerEntry (fault e 5) (tx_id transaction) (t_destinationAccountId transferData)
              DEBIT (t_amount transferData) (t_currency transferData)
              (balance destinationAccount + t_amount transferData)
              (''Transfer In: '' @ t_description transferData) db) (\<lambda>_ db.
     let sourceAccount =
           sourceAccount\<lparr>balance := balance sourceAccount - t_amount transferData,
                         availableBalance := availableBalance sourceAccount - t_amount transferData\<rparr>
     in
     await (Account_save (fault e 6) sourceAccount db) (\<lambda>_ db.
     let destinationAccount =
           destinationAccount\<lparr>balance := balance destinationAccount + t_amount transferData,
                              availableBalance :=
                                availableBalance destinationAccount + t_amount transferData\<rparr>
     in
     await (Account_save (fault e 7) destinationAccount db) (\<lambda>_ db.
     let transaction = transaction\<lparr>tx_status := COMPLETED, completedAt := Some (now e)\<rparr>
     in
     await (Transaction_save (fault e 8) transaction db) (\<lambda>_ db.
     await (commitTransaction (fault e 9) db) (\<lambda>_ db.
     (Inr transaction, db))))))))))"

definition transfer :: "bool \<Rightarrow> env \<Rightarrow> TransferInput \<Rightarrow> store \<Rightarrow> ITransaction outcome" where
  "transfer useTransactions e transferData db0 =
     await (startSession (fault e 0) db0) (\<lambda>session db.
     case transfer_try e transferData db of
       (Inr transaction, db) \<Rightarrow> (Inr transaction, db)
     | (Inl error, db) \<Rightarrow>
         await (abortTransaction (fault e 10) session db) (\<lambda>_ db. (Inl error, db)))"

section \<open>AccountService\<close>

record CreateAccountInput =
  c_userId :: oid
  c_name :: string
  c_type :: AccountType
  c_currency :: string
  initialBalance :: "amount option"
  c_metadata :: "metadata option"


text \<open>\<open>initialBalance || 0\<close>\<close>

definition orZero :: "amount option \<Rightarrow> amount" where
  "orZero b = (case b of None \<Rightarrow> 0 | Some x \<Rightarrow> x)"


text \<open>
  \<open>closeAccountWithTransaction\<close>. Round trips: 0 opens the session, 1 \<open>findOne\<close>, 2
  save of the account, 3 commit, 4 abort.
\<close>

definition closeAccountWithTransaction_try :: "env \<Rightarrow> oid \<Rightarrow> oid \<Rightarrow> store \<Rightarrow> IAccount outcome" where
  "closeAccountWithTransaction_try e accountId userId db0 =
     await (Account_findOne (fault e 1) (\<lambda>a. acc_id a = accountId \<and> acc_userId a = userId) db0)
       (\<lambda>found db.
     case found of
       None \<Rightarrow> (Inl (Error ''Account not found''), db)
     | Some account \<Rightarrow>
     if balance account \<noteq> 0 then (Inl (Error ''Account must have zero balance to be closed''), db)
     else
     let account = account\<lparr>acc_status := CLOSED\<rparr>
     in
     await (Account_save (fault e 2) account db) (\<lambda>_ db.
     await (commitTransaction (fault e 3) db) (\<lambda>_ db.
     (Inr account, db))))"

definition closeAccountWithTransaction :: "env \<Rightarrow> oid \<Rightarrow> oid \<Rightarrow> store \<Rightarrow> IAccount outcome" where
  "closeAccountWithTransaction e accountId userId db0 =
     await (startSession (fault e 0) db0) (\<lambda>session db.
     case closeAccountWithTransaction_try e accountId userId db of
       (Inr account, db) \<Rightarrow> (Inr account, db)
     | (Inl error, db) \<Rightarrow>
         await (abortTransaction (fault e 4) session db) (\<lambda>_ db. (Inl error, db)))"

text \<open>\<open>closeAccountWithoutTransaction\<close>. Round trips: 0 \<open>findOne\<close>, 1 save.\<close>

definition closeAccountWithoutTransaction :: "env \<Rightarrow> oid \<Rightarrow> oid \<Rightarrow> store \<Rightarrow> IAccount outcome" where
  "closeAccountWithoutTransaction e accountId userId db0 =
     await (Account_findOne (fault e 0) (\<lambda>a. acc_id a = accountId \<and> acc_userId a = userId) db0)
       (\<lambda>found db.
     case found of
       None \<Rightarrow> (Inl (Error ''Account not found''), db)
     | Some account \<Rightarrow>
     if balance account \<noteq> 0 then (Inl (Error ''Account must have zero balance to be closed''), db)
     else
     let account = account\<lparr>acc_status := CLOSED\<rparr>
     in
     await (Account_save (fault e 1) account db) (\<lambda>_ db.
     (Inr account, db)))"

definition closeAccount :: "bool \<Rightarrow> env \<Rightarrow> oid \<Rightarrow> oid \<Rightarrow> store \<Rightarrow> IAccount outcome" where
  "closeAccount useTransactions e accountId userId db =
     (if useTransactions then closeAccountWithTransaction e accountId userId db
      else closeAccountWithoutTransaction e accountId userId db)"

section \<open>Database configuration\<close>

text \<open>
  \<open>NODE_ENV = process.env.NODE_ENV || "development"\<close> and the exported constant
  \<open>useTransactions = NODE_ENV === "production"\<close>, both fixed when the module is loaded.
\<close>

definition NODE_ENV :: "string option \<Rightarrow> string" where
  "NODE_ENV v = (case v of None \<Rightarrow> ''development'' | Some s \<Rightarrow> if s = [] then ''development'' else s)"

definition useTransactions :: "string option \<Rightarrow> bool" where
  "useTransactions v = (NODE_ENV v = ''production'')"

text \<open>
  \<open>connectDB\<close>, given the environment variable, whether \<open>mongoose.connect\<close> throws and
  whether the probe \<open>mongoose.startSession()\<close> throws. It returns what it logged (the
  message of each logger call) and whether it ended the process with
  \<open>process.exit(1)\<close>. It has no other effect: \<open>useTransactions\<close> is a constant.
\<close>

datatype log = Info string | Warn string | Err string

definition connectDB :: "string option \<Rightarrow> bool \<Rightarrow> bool \<Rightarrow> log list \<times> bool" where
  "connectDB v connectThrows startSessionThrows =
     (if connectThrows then ([Err ''MongoDB connection error:''], True)
      else if useTransactions v then
        (if startSessionThrows
         then ([Info ''MongoDB connected successfully'',
                Err ''MongoDB transaction support unavailable:'',
                Warn ''Running in fallback mode without transaction support. NOT recommended for production!''],
               False)
         else ([Info ''MongoDB connected successfully'',
                Info ''MongoDB transaction support verified''], False))
      else ([Info ''MongoDB connected successfully'',
             Info ''Running in development mode without transaction support''], False))"

section \<open>Notions used by the properties\<close>



definition emptyStore :: store where
  "emptyStore = \<lparr>accounts = [], transactions = [], ledgerEntries = []\<rparr>"



text \<open>
  The new transaction document of a call passes the schema and the unique indexes of
  the collection.
\<close>

definition insertable :: "env \<Rightarrow> amount \<Rightarrow> string \<Rightarrow> string \<Rightarrow> store \<Rightarrow> bool" where
  "insertable e amount' currency description db =
     (1 / 100 \<le> amount' \<and> trim (toUpperCase currency) \<noteq> [] \<and> description \<noteq> [] \<and> uuid e \<noteq> [] \<and>
      (\<forall>x \<in> set (transactions db). tx_id x \<noteq> newObjectId e \<and> transactionId x \<noteq> uuid e))"

text \<open>The same database with the status of every account replaced, account by account.\<close>

definition restatus :: "(oid \<Rightarrow> AccountStatus) \<Rightarrow> store \<Rightarrow> store" where
  "restatus r db = db\<lparr>accounts := map (\<lambda>a. a\<lparr>acc_status := r (acc_id a)\<rparr>) (accounts db)\<rparr>"

section \<open>A small bank\<close>

text \<open>
  Four accounts: A (USD, 1000) of user 7, B (USD, 0) of user 8, E (EUR, 100) and S (USD,
  half a cent) of user 7; a store that answers every round trip, and one that rejects
  round trip \<open>k\<close> only.
\<close>

definition accountA :: IAccount where
  "accountA = \<lparr>acc_id = 1, acc_userId = 7, accountNumber = ''1000000001'', acc_name = ''Checking'',
               acc_type = ASSET, acc_currency = ''USD'', balance = 1000, availableBalance = 1000,
               acc_status = ACTIVE, acc_metadata = []\<rparr>"

definition accountB :: IAccount where
  "accountB = \<lparr>acc_id = 2, acc_userId = 8, accountNumber = ''1000000002'', acc_name = ''Savings'',
               acc_type = ASSET, acc_currency = ''USD'', balance = 0, availableBalance = 0,
               acc_status = ACTIVE, acc_metadata = []\<rparr>"

definition accountE :: IAccount where
  "accountE = \<lparr>acc_id = 3, acc_userId = 7, accountNumber = ''1000000003'', acc_name = ''Euro'',
               acc_type = ASSET, acc_currency = ''EUR'', balance = 100, availableBalance = 100,
               acc_status = ACTIVE, acc_metadata = []\<rparr>"

definition accountS :: IAccount where
  "accountS = \<lparr>acc_id = 4, acc_userId = 7, accountNumber = ''1000000004'', acc_name = ''Small'',
               acc_type = ASSET, acc_currency = ''USD'', balance = 1 / 200,
               availableBalance = 1 / 200, acc_status = ACTIVE, acc_metadata = []\<rparr>"

definition bank :: store where
  "bank = \<lparr>accounts = [accountA, accountB, accountE, accountS], transactions = [],
           ledgerEntries = []\<rparr>"

definition calm :: env where
  "calm = \<lparr>fault = (\<lambda>_. False), now = 42, newObjectId = 100, uuid = ''c0ffee''\<rparr>"

definition failing :: "nat \<Rightarrow> env" where
  "failing k = \<lparr>fault = (\<lambda>i. i = k), now = 42, newObjectId = 100, uuid = ''c0ffee''\<rparr>"

definition deposit500 :: DepositInput where
  "deposit500 = \<lparr>d_userId = 7, d_accountId = 1, d_amount = 500, d_currency = ''USD'',
                 d_description = ''salary'', d_metadata = None\<rparr>"

definition depositEUR :: DepositInput where
  "depositEUR = \<lparr>d_userId = 7, d_accountId = 3, d_amount = 500, d_currency = ''USD'',
                 d_description = ''salary'', d_metadata = None\<rparr>"

definition withdraw2000 :: WithdrawalInput where
  "withdraw2000 = \<lparr>w_userId = 7, w_accountId = 1, w_amount = 2000, w_currency = ''USD'',
                   w_description = ''cash'', w_metadata = None\<rparr>"

definition withdraw1000 :: WithdrawalInput where
  "withdraw1000 = \<lparr>w_userId = 7, w_accountId = 1, w_amount = 1000, w_currency = ''USD'',
                   w_description = ''cash'', w_metadata = None\<rparr>"

definition withdrawHalfCent :: WithdrawalInput where
  "withdrawHalfCent = \<lparr>w_userId = 7, w_accountId = 4, w_amount = 1 / 200, w_currency = ''USD'',
                       w_description = ''cash'', w_metadata = None\<rparr>"

definition transfer500 :: TransferInput where
  "transfer500 = \<lparr>t_userId = 7, t_sourceAccountId = 1, t_destinationAccountId = 2,
                  t_amount = 500, t_currency = ''USD'', t_description = ''rent'',
                  t_metadata = None\<rparr>"

definition pending500 :: ITransaction where
  "pending500 = \<lparr>tx_id = 100, transactionId = ''c0ffee'', tx_userId = 7, tx_type = DEPOSIT,
                 tx_amount = 500, tx_currency = ''USD'', sourceAccountId = None,
                 destinationAccountId = Some 1, tx_description = ''salary'', tx_status = PENDING,
                 tx_metadata = [], completedAt = None\<rparr>"

definition openA :: CreateAccountInput where
  "openA = \<lparr>c_userId = 7, c_name = ''Checking'', c_type = ASSET, c_currency = ''USD'',
            initialBalance = Some 1000, c_metadata = None\<rparr>"

definition firstId :: env where
  "firstId = \<lparr>fault = (\<lambda>_. False), now = 41, newObjectId = 1, uuid = ''c0ffee''\<rparr>"

definition bankA :: store where
  "bankA = \<lparr>accounts = [accountA], transactions = [], ledgerEntries = []\<rparr>"

section \<open>Lemmas on the store operations\<close>

lemmas store_ops = await_def Account_findOne_def Transaction_insert_def LedgerEntry_insert_def
  Account_insert_def Account_save_def Transaction_save_def startSession_def commitTransaction_def
  abortTransaction_def createLedgerEntry_def createLedgerEntryWithoutTransaction_def

lemmas schema_defs = valid_Transaction_def valid_LedgerEntry_def valid_Account_def orEmpty_def
  orZero_def trim_def toUpperCase_def isSpace_def

lemmas service_defs = deposit_def depositWithTransaction_def depositWithTransaction_try_def
  depositWithoutTransaction_def withdraw_def withdraw_try_def transfer_def transfer_try_def
  closeAccount_def closeAccountWithTransaction_def closeAccountWithTransaction_try_def
  closeAccountWithoutTransaction_def

lemmas bank_defs = bank_def accountA_def accountB_def accountE_def accountS_def calm_def
  failing_def deposit500_def depositEUR_def withdraw2000_def withdraw1000_def
  withdrawHalfCent_def transfer500_def pending500_def openA_def firstId_def bankA_def
  emptyStore_def

lemma find_SomeD: "find P xs = Some a \<Longrightarrow> P a \<and> a \<in> set xs"
  by (induction xs) (auto split: if_splits)

text \<open>
  Looking a document up after a write-back: the lookup that found \<open>a\<close> finds its
  replacement, and a lookup the write-back does not concern is unchanged.
\<close>

lemma find_map_replace:
  assumes "find P xs = Some a" and "P a'" and "\<And>x. P x \<Longrightarrow> f x = a'" and "\<And>x. f x = x \<or> f x = a'"
  shows "find P (map f xs) = Some a'"
  using assms(1)
proof (induction xs)
  case Nil
  then show ?case by simp
next
  case (Cons x xs)
  show ?case
  proof (cases "P x")
    case True
    then show ?thesis using assms(2,3) by simp
  next
    case False
    then have "find P xs = Some a" using Cons.prems by simp
    then have IH: "find P (map f xs) = Some a'" by (rule Cons.IH)
    from assms(4)[of x] show ?thesis
    proof
      assume "f x = x"
      then show ?thesis using False IH by simp
    next
      assume "f x = a'"
      then show ?thesis using assms(2) by simp
    qed
  qed
qed


lemma find_map_commute:
  assumes "\<And>x. P (g x) = P x"
  shows "find P (map g xs) = map_option g (find P xs)"
  by (induction xs) (auto simp: assms)

section \<open>Failure inside a session\<close>






section \<open>What a returned transaction says about the database\<close>


lemma withdraw_Inr:
  assumes "withdraw u e d db = (Inr t, db')"
  shows "\<exists>account.
       find (\<lambda>a. acc_id a = w_accountId d \<and> acc_userId a = w_userId d) (accounts db) = Some account
     \<and> acc_currency account = w_currency d
     \<and> 1 / 100 \<le> w_amount d \<and> w_amount d \<le> availableBalance account
     \<and> accounts db' =
         map (\<lambda>x. if acc_id x = w_accountId d
                then account\<lparr>balance := balance account - w_amount d,
                             availableBalance := availableBalance account - w_amount d\<rparr>
                else x) (accounts db)
     \<and> ledgerEntries db' = ledgerEntries db @
          [\<lparr>le_transactionId = tx_id t, le_accountId = w_accountId d, le_type = CREDIT,
            le_amount = w_amount d, le_currency = trim (toUpperCase (w_currency d)),
            le_balance = balance account - w_amount d,
            le_description = ''Withdrawal: '' @ w_description d, le_metadata = []\<rparr>]
     \<and> tx_status t = COMPLETED \<and> completedAt t = Some (now e) \<and> t \<in> set (transactions db')"
  using assms
  by (auto simp: withdraw_def withdraw_try_def
        store_ops Let_def valid_Transaction_def dest!: find_SomeD split: if_splits option.splits)


lemma closeAccount_Inr:
  assumes "closeAccount u e i uid db = (Inr closedAccount, db')"
  shows "\<exists>account.
        find (\<lambda>a. acc_id a = i \<and> acc_userId a = uid) (accounts db) = Some account
      \<and> balance account = 0 \<and> closedAccount = account\<lparr>acc_status := CLOSED\<rparr>
      \<and> accounts db' = map (\<lambda>x. if acc_id x = i then closedAccount else x) (accounts db)
      \<and> transactions db' = transactions db \<and> ledgerEntries db' = ledgerEntries db"
  using assms
  by (auto simp: closeAccount_def closeAccountWithTransaction_def
      closeAccountWithTransaction_try_def closeAccountWithoutTransaction_def store_ops Let_def
      dest!: find_SomeD split: if_splits option.splits)

section \<open>When a call goes through\<close>

lemma withdraw_succeeds:
  assumes "find (\<lambda>a. acc_id a = w_accountId d \<and> acc_userId a = w_userId d) (accounts db) = Some account"
    and "acc_currency account = w_currency d" and "w_amount d \<le> availableBalance account"
    and "\<forall>k. \<not> fault e k" and "valid_Account account"
    and "insertable e (w_amount d) (w_currency d) (w_description d) db"
  shows "\<exists>t db'. withdraw u e d db = (Inr t, db')"
  using assms
  by (auto simp: withdraw_def withdraw_try_def insertable_def
        store_ops Let_def valid_Transaction_def valid_LedgerEntry_def valid_Account_def)

lemma transfer_succeeds:
  assumes "find (\<lambda>a. acc_id a = t_sourceAccountId d \<and> acc_userId a = t_userId d) (accounts db) = Some src"
    and "find (\<lambda>a. acc_id a = t_destinationAccountId d) (accounts db) = Some dst"
    and "acc_currency src = t_currency d" and "acc_currency dst = t_currency d"
    and "t_amount d \<le> availableBalance src"
    and "\<forall>k. \<not> fault e k" and "valid_Account src" and "valid_Account dst"
    and "insertable e (t_amount d) (t_currency d) (t_description d) db"
  shows "\<exists>t db'. transfer u e d db = (Inr t, db')"
  using assms
  by (auto simp: transfer_def transfer_try_def insertable_def
        store_ops Let_def valid_Transaction_def valid_LedgerEntry_def valid_Account_def)

section \<open>Which error a call fails with\<close>

lemma withdraw_insufficient_iff:
  assumes "find (\<lambda>a. acc_id a = w_accountId d \<and> acc_userId a = w_userId d) (accounts db) = Some account"
    and "acc_currency account = w_currency d"
    and "\<not> fault e 0" and "\<not> fault e 1" and "\<not> fault e 7"
  shows "(fst (withdraw u e d db) = Inl (Error ''Insufficient funds''))
       = (availableBalance account < w_amount d)"
  using assms
  by (auto simp: withdraw_def withdraw_try_def store_ops Let_def split: if_splits)

lemma transfer_source_not_found_iff:
  assumes "\<not> fault e 0" and "\<not> fault e 1" and "\<not> fault e 10"
  shows "(fst (transfer u e d db) = Inl (Error ''Source account not found''))
       = (find (\<lambda>a. acc_id a = t_sourceAccountId d \<and> acc_userId a = t_userId d) (accounts db) = None)"
  using assms
  by (auto simp: transfer_def transfer_try_def store_ops Let_def split: if_splits option.splits)

lemma transfer_destination_not_found_iff:
  assumes "\<not> fault e 0" and "\<not> fault e 1" and "\<not> fault e 2" and "\<not> fault e 10"
    and "find (\<lambda>a. acc_id a = t_sourceAccountId d \<and> acc_userId a = t_userId d) (accounts db) = Some src"
  shows "(fst (transfer u e d db) = Inl (Error ''Destination account not found''))
       = (find (\<lambda>a. acc_id a = t_destinationAccountId d) (accounts db) = None)"
  using assms
  by (auto simp: transfer_def transfer_try_def store_ops Let_def split: if_splits option.splits)

lemma closeAccount_nonzero:
  assumes "find (\<lambda>a. acc_id a = i \<and> acc_userId a = uid) (accounts db) = Some account"
    and "balance account \<noteq> 0" and "\<not> fault e 0" and "\<not> fault e 1" and "\<not> fault e 4"
  shows "closeAccount u e i uid db
       = (Inl (Error ''Account must have zero balance to be closed''), db)"
  using assms
  by (auto simp: closeAccount_def closeAccountWithTransaction_def
      closeAccountWithTransaction_try_def closeAccountWithoutTransaction_def store_ops Let_def)

section \<open>Deposit\<close>



section \<open>Transfer\<close>




section \<open>Withdrawal\<close>

text \<open>
  C7, as the specification states it, fails: withdrawing exactly the available balance does
  not always succeed. Account S of user 7 holds half a cent, available in full, in USD;
  the store answers every round trip; withdrawing that half cent passes the funds check
  and is then rejected by the transaction schema (\<open>amount\<close> has \<open>min: 0.01\<close>), and the
  database is unchanged.
\<close>

theorem withdraw_exact_below_schema_minimum:
  "find (\<lambda>a. acc_id a = w_accountId withdrawHalfCent \<and> acc_userId a = w_userId withdrawHalfCent)
     (accounts bank) = Some accountS \<and>
   acc_currency accountS = w_currency withdrawHalfCent \<and>
   0 < w_amount withdrawHalfCent \<and>
   w_amount withdrawHalfCent = availableBalance accountS \<and>
   availableBalance accountS = balance accountS \<and>
   withdraw True calm withdrawHalfCent bank = (Inl ValidationError, bank)"
  by (simp add: service_defs store_ops schema_defs bank_defs Let_def)

text \<open>
  C7, amended. Given an account of the caller with the currency of the request, and a
  store that opens the session, answers the lookup and aborts, a withdrawal of \<open>a\<close> fails
  with "Insufficient funds" exactly when the available balance is strictly less than
  \<open>a\<close>. Withdrawing exactly the available balance succeeds when moreover no round trip
  fails and the documents pass their schemas (in particular \<open>a\<close> is at least 0.01); the
  account then has available balance 0 and balance old balance minus \<open>a\<close>, which is 0
  when the available balance equalled the balance.
\<close>

theorem withdraw_insufficient_funds:
  assumes "find (\<lambda>a. acc_id a = w_accountId d \<and> acc_userId a = w_userId d) (accounts db) = Some account"
    and "acc_currency account = w_currency d"
    and "\<not> fault e 0" and "\<not> fault e 1" and "\<not> fault e 7"
  shows "((fst (withdraw u e d db) = Inl (Error ''Insufficient funds''))
            = (availableBalance account < w_amount d)) \<and>
         (w_amount d = availableBalance account \<and> (\<forall>k. \<not> fault e k) \<and> valid_Account account \<and>
          insertable e (w_amount d) (w_currency d) (w_description d) db
          \<longrightarrow> (\<exists>t db'. withdraw u e d db = (Inr t, db') \<and> tx_status t = COMPLETED \<and>
                 find (\<lambda>a. acc_id a = w_accountId d \<and> acc_userId a = w_userId d) (accounts db')
                   = Some (account\<lparr>balance := balance account - w_amount d,
                                  availableBalance := 0\<rparr>) \<and>
                 (availableBalance account = balance account
                  \<longrightarrow> find (\<lambda>a. acc_id a = w_accountId d \<and> acc_userId a = w_userId d) (accounts db')
                        = Some (account\<lparr>balance := 0, availableBalance := 0\<rparr>))))"
proof (intro conjI impI)
  show "(fst (withdraw u e d db) = Inl (Error ''Insufficient funds''))
          = (availableBalance account < w_amount d)"
    using assms by (rule withdraw_insufficient_iff)
next
  assume ok: "w_amount d = availableBalance account \<and> (\<forall>k. \<not> fault e k) \<and> valid_Account account \<and>
          insertable e (w_amount d) (w_currency d) (w_description d) db"
  let ?P = "\<lambda>a. acc_id a = w_accountId d \<and> acc_userId a = w_userId d"
  from ok have "w_amount d \<le> availableBalance account" by simp
  with assms(1,2) ok obtain t db' where r: "withdraw u e d db = (Inr t, db')"
    using withdraw_succeeds[of d db account e u] by blast
  from withdraw_Inr[OF r] obtain account' where
    f': "find ?P (accounts db) = Some account'"
    and acc: "accounts db' =
         map (\<lambda>x. if acc_id x = w_accountId d
                then account'\<lparr>balance := balance account' - w_amount d,
                              availableBalance := availableBalance account' - w_amount d\<rparr>
                else x) (accounts db)"
    and st: "tx_status t = COMPLETED"
    by blast
  from f' assms(1) have same: "account' = account" by simp
  from find_SomeD[OF assms(1)] have P: "acc_id account = w_accountId d" "acc_userId account = w_userId d"
    by auto
  have after: "find ?P (accounts db')
         = Some (account\<lparr>balance := balance account - w_amount d,
                        availableBalance := availableBalance account - w_amount d\<rparr>)"
    unfolding acc same by (rule find_map_replace[OF assms(1)]) (auto simp: P)
  have zero: "availableBalance account - w_amount d = 0" using ok by simp
  have after0: "find ?P (accounts db')
         = Some (account\<lparr>balance := balance account - w_amount d, availableBalance := 0\<rparr>)"
    using after zero by simp
  moreover have "find ?P (accounts db') = Some (account\<lparr>balance := 0, availableBalance := 0\<rparr>)"
    if "availableBalance account = balance account"
    using after0 that ok by simp
  ultimately show "\<exists>t db'. withdraw u e d db = (Inr t, db') \<and> tx_status t = COMPLETED \<and>
                 find ?P (accounts db')
                   = Some (account\<lparr>balance := balance account - w_amount d,
                                  availableBalance := 0\<rparr>) \<and>
                 (availableBalance account = balance account
                  \<longrightarrow> find ?P (accounts db')
                        = Some (account\<lparr>balance := 0, availableBalance := 0\<rparr>))"
    using r st by blast
qed

theorem withdraw_insufficient_funds_witness:
  "find (\<lambda>a. acc_id a = w_accountId withdraw1000 \<and> acc_userId a = w_userId withdraw1000)
     (accounts bank) = Some accountA \<and>
   acc_currency accountA = w_currency withdraw1000 \<and>
   w_currency withdraw2000 = w_currency withdraw1000 \<and>
   w_amount withdraw1000 = availableBalance accountA \<and>
   availableBalance accountA = balance accountA \<and>
   valid_Account accountA \<and>
   insertable calm (w_amount withdraw1000) (w_currency withdraw1000) (w_description withdraw1000) bank \<and>
   fst (withdraw True calm withdraw2000 bank) = Inl (Error ''Insufficient funds'') \<and>
   fst (withdraw True calm withdraw1000 bank) \<noteq> Inl (Error ''Insufficient funds'') \<and>
   (\<exists>t db'. withdraw True calm withdraw1000 bank = (Inr t, db') \<and> tx_status t = COMPLETED \<and>
       find (\<lambda>a. acc_id a = 1 \<and> acc_userId a = 7) (accounts db')
         = Some (accountA\<lparr>balance := 0, availableBalance := 0\<rparr>))"
proof -
  have f: "find (\<lambda>a. acc_id a = w_accountId withdraw1000 \<and> acc_userId a = w_userId withdraw1000)
     (accounts bank) = Some accountA"
    by (simp add: bank_defs)
  have f2: "find (\<lambda>a. acc_id a = w_accountId withdraw2000 \<and> acc_userId a = w_userId withdraw2000)
     (accounts bank) = Some accountA"
    by (simp add: bank_defs)
  have c: "acc_currency accountA = w_currency withdraw1000"
    and c2: "acc_currency accountA = w_currency withdraw2000"
    by (simp_all add: bank_defs)
  have nf: "\<not> fault calm 0" "\<not> fault calm 1" "\<not> fault calm 7" "\<forall>k. \<not> fault calm k"
    by (simp_all add: calm_def)
  have eq: "w_amount withdraw1000 = availableBalance accountA"
    and eq': "availableBalance accountA = balance accountA"
    and less: "availableBalance accountA < w_amount withdraw2000"
    by (simp_all add: bank_defs)
  have v: "valid_Account accountA"
    by (simp add: valid_Account_def accountA_def)
  have i: "insertable calm (w_amount withdraw1000) (w_currency withdraw1000)
             (w_description withdraw1000) bank"
    by (simp add: insertable_def schema_defs bank_defs)
  note big = withdraw_insufficient_funds[OF f2 c2 nf(1,2,3), of True]
  note exact = withdraw_insufficient_funds[OF f c nf(1,2,3), of True]
  have 1: "fst (withdraw True calm withdraw2000 bank) = Inl (Error ''Insufficient funds'')"
    using big less by blast
  have 2: "fst (withdraw True calm withdraw1000 bank) \<noteq> Inl (Error ''Insufficient funds'')"
    using exact eq by simp
  have 3: "\<exists>t db'. withdraw True calm withdraw1000 bank = (Inr t, db') \<and> tx_status t = COMPLETED \<and>
       find (\<lambda>a. acc_id a = w_accountId withdraw1000 \<and> acc_userId a = w_userId withdraw1000)
         (accounts db') = Some (accountA\<lparr>balance := 0, availableBalance := 0\<rparr>)"
    using exact eq eq' nf(4) v i by blast
  have ids: "w_accountId withdraw1000 = 1" "w_userId withdraw1000 = 7"
    by (simp_all add: withdraw1000_def)
  show ?thesis
    using f c c2 eq eq' v i 1 2 3 unfolding ids by simp
qed

section \<open>Which accounts a transfer may name\<close>

text \<open>
  C8. With a store that opens the session, answers the two lookups and aborts, a
  transfer fails with "Source account not found" exactly when no account with the
  source identifier belongs to the caller; and, the source being found, it fails with
  "Destination account not found" exactly when no account at all has the destination
  identifier: the destination lookup has no owner condition. Any existing account,
  whoever owns it, can receive: with matching currencies, sufficient available funds,
  valid documents and no store failure the transfer returns a transaction.
\<close>

theorem transfer_lookup_scoping:
  assumes "\<not> fault e 0" and "\<not> fault e 1" and "\<not> fault e 2" and "\<not> fault e 10"
  shows "((fst (transfer u e d db) = Inl (Error ''Source account not found''))
           = (find (\<lambda>a. acc_id a = t_sourceAccountId d \<and> acc_userId a = t_userId d) (accounts db) = None)) \<and>
         (\<forall>src. find (\<lambda>a. acc_id a = t_sourceAccountId d \<and> acc_userId a = t_userId d) (accounts db)
                  = Some src
            \<longrightarrow> ((fst (transfer u e d db) = Inl (Error ''Destination account not found''))
                   = (find (\<lambda>a. acc_id a = t_destinationAccountId d) (accounts db) = None))) \<and>
         (\<forall>src dst. find (\<lambda>a. acc_id a = t_sourceAccountId d \<and> acc_userId a = t_userId d) (accounts db)
                      = Some src \<and>
                    find (\<lambda>a. acc_id a = t_destinationAccountId d) (accounts db) = Some dst \<and>
                    acc_currency src = t_currency d \<and> acc_currency dst = t_currency d \<and>
                    t_amount d \<le> availableBalance src \<and> (\<forall>k. \<not> fault e k) \<and>
                    valid_Account src \<and> valid_Account dst \<and>
                    insertable e (t_amount d) (t_currency d) (t_description d) db
            \<longrightarrow> (\<exists>t db'. transfer u e d db = (Inr t, db')))"
proof (intro conjI allI impI)
  show "(fst (transfer u e d db) = Inl (Error ''Source account not found''))
           = (find (\<lambda>a. acc_id a = t_sourceAccountId d \<and> acc_userId a = t_userId d) (accounts db) = None)"
    using assms(1,2,4) by (rule transfer_source_not_found_iff)
next
  fix src
  assume "find (\<lambda>a. acc_id a = t_sourceAccountId d \<and> acc_userId a = t_userId d) (accounts db) = Some src"
  with assms show "(fst (transfer u e d db) = Inl (Error ''Destination account not found''))
                   = (find (\<lambda>a. acc_id a = t_destinationAccountId d) (accounts db) = None)"
    by (rule transfer_destination_not_found_iff)
next
  fix src dst
  assume "find (\<lambda>a. acc_id a = t_sourceAccountId d \<and> acc_userId a = t_userId d) (accounts db)
                      = Some src \<and>
                    find (\<lambda>a. acc_id a = t_destinationAccountId d) (accounts db) = Some dst \<and>
                    acc_currency src = t_currency d \<and> acc_currency dst = t_currency d \<and>
                    t_amount d \<le> availableBalance src \<and> (\<forall>k. \<not> fault e k) \<and>
                    valid_Account src \<and> valid_Account dst \<and>
                    insertable e (t_amount d) (t_currency d) (t_description d) db"
  then show "\<exists>t db'. transfer u e d db = (Inr t, db')"
    using transfer_succeeds[of d db src dst e u] by blast
qed

theorem transfer_lookup_scoping_witness:
  "acc_userId accountB \<noteq> t_userId transfer500 \<and>
   find (\<lambda>a. acc_id a = t_sourceAccountId transfer500 \<and> acc_userId a = t_userId transfer500)
     (accounts bank) = Some accountA \<and>
   find (\<lambda>a. acc_id a = t_destinationAccountId transfer500) (accounts bank) = Some accountB \<and>
   fst (transfer True calm transfer500 bank) \<noteq> Inl (Error ''Source account not found'') \<and>
   fst (transfer True calm transfer500 bank) \<noteq> Inl (Error ''Destination account not found'') \<and>
   (\<exists>t db'. transfer True calm transfer500 bank = (Inr t, db'))"
proof -
  have nf: "\<not> fault calm 0" "\<not> fault calm 1" "\<not> fault calm 2" "\<not> fault calm 10"
    "\<forall>k. \<not> fault calm k"
    by (simp_all add: calm_def)
  have fs: "find (\<lambda>a. acc_id a = t_sourceAccountId transfer500 \<and> acc_userId a = t_userId transfer500)
     (accounts bank) = Some accountA"
    and fd: "find (\<lambda>a. acc_id a = t_destinationAccountId transfer500) (accounts bank) = Some accountB"
    and other: "acc_userId accountB \<noteq> t_userId transfer500"
    and pre: "acc_currency accountA = t_currency transfer500"
      "acc_currency accountB = t_currency transfer500"
      "t_amount transfer500 \<le> availableBalance accountA"
    by (simp_all add: bank_defs)
  have v: "valid_Account accountA" "valid_Account accountB"
    by (simp_all add: valid_Account_def accountA_def accountB_def)
  have i: "insertable calm (t_amount transfer500) (t_currency transfer500)
             (t_description transfer500) bank"
    by (simp add: insertable_def schema_defs bank_defs)
  note inst = transfer_lookup_scoping[OF nf(1,2,3,4), of True transfer500 bank]
  have 1: "fst (transfer True calm transfer500 bank) \<noteq> Inl (Error ''Source account not found'')"
    using inst fs by simp
  have 2: "fst (transfer True calm transfer500 bank) \<noteq> Inl (Error ''Destination account not found'')"
    using inst fs fd by simp
  have 3: "\<exists>t db'. transfer True calm transfer500 bank = (Inr t, db')"
    using inst fs fd pre nf(5) v i by blast
  show ?thesis using other fs fd 1 2 3 by simp
qed

section \<open>Closing an account\<close>

text \<open>
  C9. \<open>closeAccount\<close>, in either mode: when the account of the caller has a balance
  other than zero (and the store opens the session, answers the lookup and aborts), the
  call fails with "Account must have zero balance to be closed" and the database, so
  the status and every other field of the account, is unchanged. When the call returns
  an account, the account it found had balance exactly zero, and the returned and
  stored account is that account with status \<open>CLOSED\<close> and nothing else changed.
\<close>

theorem closeAccount_requires_zero_balance:
  "(find (\<lambda>a. acc_id a = i \<and> acc_userId a = uid) (accounts db) = Some account \<and>
    balance account \<noteq> 0 \<and> \<not> fault e 0 \<and> \<not> fault e 1 \<and> \<not> fault e 4
    \<longrightarrow> closeAccount u e i uid db
          = (Inl (Error ''Account must have zero balance to be closed''), db)) \<and>
   (closeAccount u e i uid db = (Inr closedAccount, db')
    \<longrightarrow> (\<exists>found. find (\<lambda>a. acc_id a = i \<and> acc_userId a = uid) (accounts db) = Some found \<and>
           balance found = 0 \<and> closedAccount = found\<lparr>acc_status := CLOSED\<rparr> \<and>
           find (\<lambda>a. acc_id a = i \<and> acc_userId a = uid) (accounts db') = Some closedAccount \<and>
           transactions db' = transactions db \<and> ledgerEntries db' = ledgerEntries db))"
proof (intro conjI impI)
  assume "find (\<lambda>a. acc_id a = i \<and> acc_userId a = uid) (accounts db) = Some account \<and>
    balance account \<noteq> 0 \<and> \<not> fault e 0 \<and> \<not> fault e 1 \<and> \<not> fault e 4"
  then show "closeAccount u e i uid db
          = (Inl (Error ''Account must have zero balance to be closed''), db)"
    using closeAccount_nonzero[of i uid db account e u] by blast
next
  assume r: "closeAccount u e i uid db = (Inr closedAccount, db')"
  let ?P = "\<lambda>a. acc_id a = i \<and> acc_userId a = uid"
  from closeAccount_Inr[OF r] obtain found where
    f: "find ?P (accounts db) = Some found" and z: "balance found = 0"
    and c: "closedAccount = found\<lparr>acc_status := CLOSED\<rparr>"
    and acc: "accounts db' = map (\<lambda>x. if acc_id x = i then closedAccount else x) (accounts db)"
    and same: "transactions db' = transactions db" "ledgerEntries db' = ledgerEntries db"
    by blast
  from find_SomeD[OF f] have P: "acc_id found = i" "acc_userId found = uid"
    by auto
  have "find ?P (accounts db') = Some closedAccount"
    unfolding acc by (rule find_map_replace[OF f]) (auto simp: P c)
  then show "\<exists>found. find ?P (accounts db) = Some found \<and>
           balance found = 0 \<and> closedAccount = found\<lparr>acc_status := CLOSED\<rparr> \<and>
           find ?P (accounts db') = Some closedAccount \<and>
           transactions db' = transactions db \<and> ledgerEntries db' = ledgerEntries db"
    using f z c same by blast
qed

theorem closeAccount_requires_zero_balance_witness:
  "find (\<lambda>a. acc_id a = 3 \<and> acc_userId a = 7) (accounts bank) = Some accountE \<and>
   balance accountE = 100 \<and>
   closeAccount True calm 3 7 bank
     = (Inl (Error ''Account must have zero balance to be closed''), bank) \<and>
   closeAccount False calm 3 7 bank
     = (Inl (Error ''Account must have zero balance to be closed''), bank) \<and>
   fst (closeAccount True calm 2 8 bank) = Inr (accountB\<lparr>acc_status := CLOSED\<rparr>) \<and>
   find (\<lambda>a. acc_id a = 2 \<and> acc_userId a = 8) (accounts (snd (closeAccount True calm 2 8 bank)))
     = Some (accountB\<lparr>acc_status := CLOSED\<rparr>) \<and>
   balance accountB = 0"
proof -
  have f: "find (\<lambda>a. acc_id a = 3 \<and> acc_userId a = 7) (accounts bank) = Some accountE"
    and b: "balance accountE = 100" "balance accountE \<noteq> 0" "balance accountB = 0"
    by (simp_all add: bank_defs)
  have nf: "\<not> fault calm 0" "\<not> fault calm 1" "\<not> fault calm 4"
    by (simp_all add: calm_def)
  have 1: "closeAccount True calm 3 7 bank
     = (Inl (Error ''Account must have zero balance to be closed''), bank)"
    using closeAccount_requires_zero_balance[of 3 7 bank accountE calm True] f b nf by blast
  have 2: "closeAccount False calm 3 7 bank
     = (Inl (Error ''Account must have zero balance to be closed''), bank)"
    using closeAccount_requires_zero_balance[of 3 7 bank accountE calm False] f b nf by blast
  have h: "fst (closeAccount True calm 2 8 bank) = Inr (accountB\<lparr>acc_status := CLOSED\<rparr>)"
    by (simp add: service_defs store_ops schema_defs bank_defs Let_def)
  then have h': "closeAccount True calm 2 8 bank
     = (Inr (accountB\<lparr>acc_status := CLOSED\<rparr>), snd (closeAccount True calm 2 8 bank))"
    by (simp add: prod_eq_iff)
  have 3: "find (\<lambda>a. acc_id a = 2 \<and> acc_userId a = 8) (accounts (snd (closeAccount True calm 2 8 bank)))
     = Some (accountB\<lparr>acc_status := CLOSED\<rparr>)"
    using closeAccount_requires_zero_balance
            [of 2 8 bank _ calm True "accountB\<lparr>acc_status := CLOSED\<rparr>"
                "snd (closeAccount True calm 2 8 bank)"] h'
    by blast
  show ?thesis using f b 1 2 h 3 by simp
qed

section \<open>The status of an account\<close>

lemma restatus_simps:
  "transactions (restatus r db) = transactions db"
  "ledgerEntries (restatus r db) = ledgerEntries db"
  "accounts (restatus r db) = map (\<lambda>a. a\<lparr>acc_status := r (acc_id a)\<rparr>) (accounts db)"
  by (simp_all add: restatus_def)

lemma depositWithTransaction_try_restatus:
  "depositWithTransaction_try e d (restatus r db)
     = apsnd (restatus r) (depositWithTransaction_try e d db)"
  by (auto simp: depositWithTransaction_try_def store_ops Let_def find_map_commute restatus_def
      valid_Account_def dest!: find_SomeD split: option.splits)

lemma depositWithoutTransaction_restatus:
  "depositWithoutTransaction e d (restatus r db)
     = apsnd (restatus r) (depositWithoutTransaction e d db)"
  by (auto simp: depositWithoutTransaction_def store_ops Let_def find_map_commute restatus_def
      valid_Account_def dest!: find_SomeD split: option.splits)

lemma withdraw_try_restatus:
  "withdraw_try e d (restatus r db) = apsnd (restatus r) (withdraw_try e d db)"
  by (auto simp: withdraw_try_def store_ops Let_def find_map_commute restatus_def
      valid_Account_def dest!: find_SomeD split: option.splits)

lemma transfer_try_restatus:
  "transfer_try e d (restatus r db) = apsnd (restatus r) (transfer_try e d db)"
  by (auto simp: transfer_try_def store_ops Let_def find_map_commute restatus_def
      valid_Account_def dest!: find_SomeD split: option.splits)

lemma deposit_restatus:
  "deposit u e d (restatus r db) = apsnd (restatus r) (deposit u e d db)"
  by (auto simp: deposit_def depositWithTransaction_def depositWithTransaction_try_restatus
      depositWithoutTransaction_restatus await_def startSession_def abortTransaction_def
      split: prod.splits sum.splits)

lemma withdraw_restatus:
  "withdraw u e d (restatus r db) = apsnd (restatus r) (withdraw u e d db)"
  by (auto simp: withdraw_def withdraw_try_restatus await_def startSession_def
      abortTransaction_def split: prod.splits sum.splits)

lemma transfer_restatus:
  "transfer u e d (restatus r db) = apsnd (restatus r) (transfer u e d db)"
  by (auto simp: transfer_def transfer_try_restatus await_def startSession_def
      abortTransaction_def split: prod.splits sum.splits)

text \<open>
  C10. Deposit, withdrawal and transfer never look at the status of an account. Give
  the accounts of a database any statuses whatever (frozen or closed in place of
  active): each of the three operations returns the same transaction or the same
  error as on the original database, and leaves the same database, balances and
  ledger included, up to those statuses, which it keeps. So an operation that would
  go through on active accounts goes through, with the same balance changes, on
  frozen and closed ones.
\<close>

theorem status_never_inspected:
  "deposit u e depositData (restatus r db) = apsnd (restatus r) (deposit u e depositData db) \<and>
   withdraw u e withdrawalData (restatus r db) = apsnd (restatus r) (withdraw u e withdrawalData db) \<and>
   transfer u e transferData (restatus r db) = apsnd (restatus r) (transfer u e transferData db)"
  by (simp add: deposit_restatus withdraw_restatus transfer_restatus)

theorem status_never_inspected_witness:
  "map acc_status (accounts (restatus (\<lambda>i. if i = 1 then FROZEN else CLOSED) bank))
     = [FROZEN, CLOSED, CLOSED, CLOSED] \<and>
   fst (deposit True calm deposit500 (restatus (\<lambda>i. if i = 1 then FROZEN else CLOSED) bank))
     = Inr (pending500\<lparr>tx_status := COMPLETED, completedAt := Some 42\<rparr>) \<and>
   map balance (accounts (snd (deposit True calm deposit500
         (restatus (\<lambda>i. if i = 1 then FROZEN else CLOSED) bank))))
     = [1500, 0, 100, 1 / 200] \<and>
   map balance (accounts (snd (withdraw True calm withdraw1000
         (restatus (\<lambda>i. if i = 1 then FROZEN else CLOSED) bank))))
     = [0, 0, 100, 1 / 200] \<and>
   map balance (accounts (snd (transfer True calm transfer500
         (restatus (\<lambda>i. if i = 1 then FROZEN else CLOSED) bank))))
     = [500, 500, 100, 1 / 200] \<and>
   map acc_status (accounts (snd (transfer True calm transfer500
         (restatus (\<lambda>i. if i = 1 then FROZEN else CLOSED) bank))))
     = [FROZEN, CLOSED, CLOSED, CLOSED]"
proof -
  let ?r = "\<lambda>i::oid. if i = 1 then FROZEN else CLOSED"
  have d1: "fst (deposit True calm deposit500 bank)
         = Inr (pending500\<lparr>tx_status := COMPLETED, completedAt := Some 42\<rparr>)"
    by (simp add: service_defs store_ops schema_defs bank_defs Let_def)
  have d2: "map balance (accounts (snd (deposit True calm deposit500 bank))) = [1500, 0, 100, 1 / 200]"
    by (simp add: service_defs store_ops schema_defs bank_defs Let_def)
  have w: "map balance (accounts (snd (withdraw True calm withdraw1000 bank))) = [0, 0, 100, 1 / 200]"
    by (simp add: service_defs store_ops schema_defs bank_defs Let_def)
  have t: "map balance (accounts (snd (transfer True calm transfer500 bank))) = [500, 500, 100, 1 / 200]"
    by (simp add: service_defs store_ops schema_defs bank_defs Let_def)
  have ids: "map acc_id (accounts (snd (transfer True calm transfer500 bank))) = [1, 2, 3, 4]"
    by (simp add: service_defs store_ops schema_defs bank_defs Let_def)
  have bal: "map balance (accounts (restatus r s)) = map balance (accounts s)" for r s
    by (simp add: restatus_simps comp_def)
  have sta: "map acc_status (accounts (restatus r s)) = map r (map acc_id (accounts s))" for r s
    by (simp add: restatus_simps comp_def)
  note inst = status_never_inspected
                [of True calm deposit500 ?r bank withdraw1000 transfer500]
  have 0: "map acc_status (accounts (restatus ?r bank)) = [FROZEN, CLOSED, CLOSED, CLOSED]"
    by (simp add: restatus_def bank_defs)
  have 1: "fst (deposit True calm deposit500 (restatus ?r bank))
         = Inr (pending500\<lparr>tx_status := COMPLETED, completedAt := Some 42\<rparr>)"
    using inst d1 by simp
  have 2: "map balance (accounts (snd (deposit True calm deposit500 (restatus ?r bank))))
         = [1500, 0, 100, 1 / 200]"
    using inst d2 by (simp add: bal)
  have 3: "map balance (accounts (snd (withdraw True calm withdraw1000 (restatus ?r bank))))
         = [0, 0, 100, 1 / 200]"
    using inst w by (simp add: bal)
  have 4: "map balance (accounts (snd (transfer True calm transfer500 (restatus ?r bank))))
         = [500, 500, 100, 1 / 200]"
    using inst t by (simp add: bal)
  have 5: "map acc_status (accounts (snd (transfer True calm transfer500 (restatus ?r bank))))
         = [FROZEN, CLOSED, CLOSED, CLOSED]"
    using inst ids by (simp add: sta)
  show ?thesis using 0 1 2 3 4 5 by simp
qed

section \<open>Balances and the ledger\<close>













section \<open>The execution strategy\<close>

text \<open>
  C3. With \<open>useTransactions\<close> false, a deposit runs as independent writes: when the
  store rejects the ledger entry, the pending transaction inserted just before stays in
  the database. A withdrawal and a transfer do not follow the flag: with
  \<open>useTransactions\<close> false they still run inside a session, and when the store rejects
  a ledger entry the transaction inserted before it is rolled back with everything else.
\<close>

theorem withdraw_transfer_ignore_best_effort:
  "deposit False (failing 2) deposit500 bank
     = (Inl StoreFailure, bank\<lparr>transactions := [pending500]\<rparr>) \<and>
   withdraw False (failing 3) withdraw1000 bank = (Inl StoreFailure, bank) \<and>
   transfer False (failing 5) transfer500 bank = (Inl StoreFailure, bank) \<and>
   withdraw False (failing 3) withdraw1000 bank = withdraw True (failing 3) withdraw1000 bank \<and>
   transfer False (failing 5) transfer500 bank = transfer True (failing 5) transfer500 bank"
  by (simp add: service_defs store_ops schema_defs bank_defs Let_def)

text \<open>
  C4. In production, when the probe \<open>startSession\<close> throws, \<open>connectDB\<close> logs the
  error and the warning that it runs in fallback mode, and does not end the process.
  But \<open>useTransactions\<close> is a constant and stays true: a later deposit still takes
  the session path. It fails at opening the session when sessions are unavailable
  (where the sequential path would have gone through), and a store failure in the
  middle of it is rolled back rather than left half written.
\<close>

theorem failed_probe_keeps_strict_mode:
  "connectDB (Some ''production'') False True
     = ([Info ''MongoDB connected successfully'',
         Err ''MongoDB transaction support unavailable:'',
         Warn ''Running in fallback mode without transaction support. NOT recommended for production!''],
        False) \<and>
   useTransactions (Some ''production'') = True \<and>
   deposit (useTransactions (Some ''production'')) (failing 0) deposit500 bank
     = (Inl StoreFailure, bank) \<and>
   fst (deposit False (failing 0) deposit500 bank) = Inl StoreFailure \<and>
   fst (deposit False (failing 5) deposit500 bank)
     = Inr (pending500\<lparr>tx_status := COMPLETED, completedAt := Some 42\<rparr>) \<and>
   deposit (useTransactions (Some ''production'')) (failing 3) deposit500 bank
     = (Inl StoreFailure, bank) \<and>
   deposit False (failing 2) deposit500 bank
     = (Inl StoreFailure, bank\<lparr>transactions := [pending500]\<rparr>)"
  by (simp add: connectDB_def useTransactions_def NODE_ENV_def service_defs store_ops schema_defs
      bank_defs Let_def)

end
